theory Spec2Isabelle
  imports Complex_Main
begin

section \<open>Python values used by the detection core\<close>

text \<open>
  The embedding follows \<^verbatim>\<open>services/threat_detector.py\<close> and
  \<^verbatim>\<open>services/network_monitor.py\<close>.  A Python exception is a value of
  \<open>py_exception\<close>; a function that may raise returns \<open>py_exception + 'a\<close> with
  \<open>Inl\<close> for the raised exception.  Python floats are modelled by the real number
  they denote (comparison of floats is exact), with the not-a-number value as a separate
  constructor of \<open>pynum\<close>; Python ints are unbounded and become \<open>int\<close>.
\<close>

datatype py_exception =
    ValueError string
  | IndexError string
  | AttributeError string
  | TypeError string
  | LibraryError string

datatype pynum = PInt int | PFloat real | PNaN

text \<open>\<^verbatim>\<open>pd.isna(x)\<close> on a number.\<close>

fun isna :: "pynum \<Rightarrow> bool" where
  "isna PNaN = True"
| "isna (PInt _) = False"
| "isna (PFloat _) = False"

text \<open>\<^verbatim>\<open>int(x)\<close>: truncation towards zero; \<^verbatim>\<open>int(float('nan'))\<close> raises ValueError.\<close>

fun py_int :: "pynum \<Rightarrow> py_exception + int" where
  "py_int (PInt i) = Inr i"
| "py_int (PFloat r) = Inr (if 0 \<le> r then \<lfloor>r\<rfloor> else \<lceil>r\<rceil>)"
| "py_int PNaN = Inl (ValueError ''cannot convert float NaN to integer'')"

text \<open>The real number a Python number denotes, if any.\<close>

fun num_value :: "pynum \<Rightarrow> real option" where
  "num_value (PInt i) = Some (of_int i)"
| "num_value (PFloat r) = Some r"
| "num_value PNaN = None"

text \<open>\<^verbatim>\<open>s.startswith(p)\<close>\<close>

definition startswith :: "string \<Rightarrow> string \<Rightarrow> bool" where
  "startswith s p = (take (length p) s = p)"

text \<open>\<^verbatim>\<open>str(n)\<close> for a non-negative int, as the f-string \<^verbatim>\<open>f'172.{i}.'\<close> uses it.\<close>

definition digit_char :: "nat \<Rightarrow> char" where
  "digit_char d = ''0123456789'' ! d"

function str_nat :: "nat \<Rightarrow> string" where
  "str_nat n = (if n < 10 then [digit_char n] else str_nat (n div 10) @ [digit_char (n mod 10)])"
  by pat_completeness auto
termination
  by (relation "measure id") auto

declare str_nat.simps [simp del]

text \<open>\<^verbatim>\<open>s.upper()\<close> on ASCII text.\<close>

definition upper_char :: "char \<Rightarrow> char" where
  "upper_char c =
     (case map_of (zip ''abcdefghijklmnopqrstuvwxyz'' ''ABCDEFGHIJKLMNOPQRSTUVWXYZ'') c of
        None \<Rightarrow> c | Some u \<Rightarrow> u)"

definition py_upper :: "string \<Rightarrow> string" where
  "py_upper s = map upper_char s"

section \<open>Feature helpers of ThreatDetector\<close>

text \<open>
  \<^verbatim>\<open>get_protocol_number\<close>: the argument is \<open>None\<close> where \<^verbatim>\<open>pd.isna(protocol)\<close>
  holds (a missing CSV cell), otherwise the protocol text.
\<close>

definition protocol_map :: "(string \<times> int) list" where
  "protocol_map = [(''TCP'', 6), (''UDP'', 17), (''ICMP'', 1)]"

definition get_protocol_number :: "string option \<Rightarrow> int" where
  "get_protocol_number protocol =
     (case protocol of
        None \<Rightarrow> 0
      | Some p \<Rightarrow> (case map_of protocol_map (py_upper p) of None \<Rightarrow> 0 | Some n \<Rightarrow> n))"

definition get_port_category :: "pynum \<Rightarrow> py_exception + int" where
  "get_port_category port =
     (if isna port then Inr 0
      else case py_int port of
             Inl e \<Rightarrow> Inl e
           | Inr p \<Rightarrow> if p < 1024 then Inr 1
                      else if p < 49152 then Inr 2
                      else Inr 3)"

definition get_packet_size_category :: "pynum \<Rightarrow> py_exception + int" where
  "get_packet_size_category size' =
     (if isna size' then Inr 0
      else case py_int size' of
             Inl e \<Rightarrow> Inl e
           | Inr s \<Rightarrow> if s < 64 then Inr 1
                      else if s < 512 then Inr 2
                      else if s < 1024 then Inr 3
                      else Inr 4)"

text \<open>
  \<^verbatim>\<open>get_ip_type_from_string\<close>: \<open>None\<close> is a missing value (\<^verbatim>\<open>pd.isna(ip)\<close>),
  the empty string is falsy.
\<close>

definition get_ip_type_from_string :: "string option \<Rightarrow> int" where
  "get_ip_type_from_string ip =
     (case ip of
        None \<Rightarrow> 0
      | Some ip_str \<Rightarrow>
          if ip_str = [] then 0
          else if startswith ip_str ''192.168.'' \<or> startswith ip_str ''10.'' \<or>
                  list_ex (\<lambda>i. startswith ip_str (''172.'' @ str_nat i @ ''.'')) [16..<32]
               then 1
               else 2)"

definition get_source_ip_category :: "string option \<Rightarrow> int" where
  "get_source_ip_category ip = get_ip_type_from_string ip"

definition get_destination_ip_category :: "string option \<Rightarrow> int" where
  "get_destination_ip_category ip = get_ip_type_from_string ip"

text \<open>\<^verbatim>\<open>get_severity(classification, confidence)\<close>\<close>

definition get_severity :: "string \<Rightarrow> real \<Rightarrow> string" where
  "get_severity classification confidence =
     (if confidence > 0.9 then ''Critical''
      else if confidence > 0.8 then ''High''
      else if confidence > 0.7 then ''Medium''
      else ''Low'')"

definition type_map :: "(string \<times> string) list" where
  "type_map =
     [(''Malware'', ''Malware Detection''),
      (''DDoS'', ''DDoS Attack''),
      (''Intrusion'', ''Unauthorized Access''),
      (''Phishing'', ''Phishing Attempt''),
      (''Port_Scan'', ''Port Scanning''),
      (''Brute_Force'', ''Brute Force Attack'')]"

definition get_threat_type :: "string \<Rightarrow> string" where
  "get_threat_type classification =
     (case map_of type_map classification of None \<Rightarrow> ''Unknown Threat'' | Some t \<Rightarrow> t)"

section \<open>Observations, collaborators and the detector state\<close>

text \<open>\<^verbatim>\<open>d.get(key, default)\<close>: a missing key is \<open>None\<close>.\<close>

definition get_default :: "'a option \<Rightarrow> 'a \<Rightarrow> 'a" where
  "get_default v d = (case v of None \<Rightarrow> d | Some x \<Rightarrow> x)"

text \<open>Sequencing of a step that may raise with the rest of a \<^verbatim>\<open>try\<close> body.\<close>

definition and_then :: "py_exception + 'a \<Rightarrow> ('a \<Rightarrow> py_exception + 'b) \<Rightarrow> py_exception + 'b" where
  "and_then m f = (case m of Inl e \<Rightarrow> Inl e | Inr x \<Rightarrow> f x)"

text \<open>\<^verbatim>\<open>try: body  except Exception as e: handler\<close>\<close>

definition try_except :: "py_exception + 'a \<Rightarrow> (py_exception \<Rightarrow> py_exception + 'a) \<Rightarrow> py_exception + 'a" where
  "try_except body handler = (case body of Inl e \<Rightarrow> handler e | Inr x \<Rightarrow> Inr x)"

text \<open>\<^verbatim>\<open>xs[i]\<close> for a non-negative index.\<close>

definition index :: "'a list \<Rightarrow> nat \<Rightarrow> py_exception + 'a" where
  "index xs i = (if i < length xs then Inr (xs ! i) else Inl (IndexError ''index out of range''))"

text \<open>
  The packet dictionary built by \<^verbatim>\<open>NetworkMonitor.parse_packet_line\<close>; a field is
  \<open>None\<close> when the key is absent.
\<close>

record packet =
  timestamp :: "string option"
  sourceIP :: "string option"
  sourcePort :: "pynum option"
  destinationIP :: "string option"
  destinationPort :: "pynum option"
  protocol :: "string option"
  packetSize :: "pynum option"
  networkInterface :: "string option"

text \<open>The argument of \<^verbatim>\<open>get_time_features\<close>: a string or a datetime object (its hour).\<close>

datatype py_timestamp = TsStr string | TsDatetime nat

text \<open>A row of the uploaded table; \<open>None\<close> and \<open>PNaN\<close> are missing cells.\<close>

record csv_row =
  source_ip :: "string option"
  dest_ip :: "string option"
  source_port :: pynum
  dest_port :: pynum
  row_protocol :: "string option"
  packet_size :: pynum
  duration :: pynum
  threat_type :: "string option"

record sample =
  features :: "pynum list"
  label :: "string option"
  raw_data :: "csv_row option"

record training_record =
  tr_date :: string
  tr_samples :: int
  tr_accuracy :: string
  tr_version :: int

record metadata =
  md_version :: int
  md_lastTrainingDate :: "string option"
  md_totalSamplesTrained :: int
  md_trainingHistory :: "training_record list"

text \<open>
  What the detector calls outside this repository (the clock, uuid, scikit-learn, joblib and
  the database client) is a parameter: \<open>'m\<close> is the type of a random-forest object,
  \<open>'sc\<close> of a scaler object.  Each operation that can raise returns a sum.
\<close>

record ('m, 'sc) env =
  now_hour :: nat
  now_isoformat :: string
  fromisoformat_hour :: "string \<Rightarrow> py_exception + nat"
  uuid4 :: string
  str_of_num :: "pynum \<Rightarrow> string"
  format_accuracy :: "real \<Rightarrow> string"
  scaler_new :: 'sc
  scaler_fit_transform :: "'sc \<Rightarrow> pynum list list \<Rightarrow> py_exception + 'sc \<times> pynum list list"
  scaler_transform :: "'sc \<Rightarrow> pynum list list \<Rightarrow> py_exception + pynum list list"
  forest_new :: 'm
  forest_fit :: "'m \<Rightarrow> pynum list list \<Rightarrow> int list \<Rightarrow> py_exception + 'm"
  forest_predict :: "'m \<Rightarrow> pynum list list \<Rightarrow> py_exception + int list"
  forest_predict_proba :: "'m \<Rightarrow> pynum list list \<Rightarrow> py_exception + real list list"
  train_test_split ::
    "pynum list list \<Rightarrow> string option list \<Rightarrow>
     py_exception + pynum list list \<times> pynum list list \<times> string option list \<times> string option list"
  accuracy_score :: "int list \<Rightarrow> int list \<Rightarrow> py_exception + real"
  classification_report :: "int list \<Rightarrow> int list \<Rightarrow> py_exception + unit"
  database_new :: "py_exception option"
  get_all_training_data :: "sample list"
  dump_model_error :: "py_exception option"
  dump_scaler_error :: "py_exception option"
  dump_metadata_error :: "py_exception option"

text \<open>
  The fields of \<^verbatim>\<open>ThreatDetector\<close>, the three files of \<^verbatim>\<open>save_model\<close> and the
  samples handed to \<^verbatim>\<open>Database.save_training_data\<close>.
\<close>

record ('m, 'sc) threat_detector =
  model :: "'m option"
  scaler :: "'sc option"
  is_trained :: bool
  model_version :: int
  total_samples_trained :: int
  last_training_date :: "string option"
  training_history :: "training_record list"
  threat_threshold :: real
  model_file :: "'m option"
  scaler_file :: "'sc option"
  metadata_file :: "metadata option"
  saved_training_data :: "sample list"

definition threat_types :: "string list" where
  "threat_types =
     [''Normal'', ''Malware'', ''DDoS'', ''Intrusion'', ''Phishing'', ''Port_Scan'', ''Brute_Force'']"

text \<open>
  \<^verbatim>\<open>ThreatDetector.__init__\<close> with \<^verbatim>\<open>THREAT_THRESHOLD\<close> read from the
  environment (0.7 when unset); the files are whatever the disk holds.
\<close>

definition init_detector ::
  "real option \<Rightarrow> 'm option \<Rightarrow> 'sc option \<Rightarrow> metadata option \<Rightarrow> ('m, 'sc) threat_detector" where
  "init_detector threshold_env mf sf mdf =
     \<lparr> model = None, scaler = None, is_trained = False, model_version = 1,
       total_samples_trained = 0, last_training_date = None, training_history = [],
       threat_threshold = get_default threshold_env 0.7,
       model_file = mf, scaler_file = sf, metadata_file = mdf, saved_training_data = [] \<rparr>"

text \<open>
  \<^verbatim>\<open>LabelEncoder.fit(threat_types)\<close> stores the sorted distinct labels;
  \<^verbatim>\<open>transform\<close> maps a label to its position and raises ValueError on an unseen
  label, \<^verbatim>\<open>inverse_transform\<close> raises ValueError on a position outside the classes.
\<close>

definition label_encoder_classes :: "string list" where
  "label_encoder_classes =
     [''Brute_Force'', ''DDoS'', ''Intrusion'', ''Malware'', ''Normal'', ''Phishing'', ''Port_Scan'']"

fun find_index' :: "string list \<Rightarrow> string \<Rightarrow> nat \<Rightarrow> nat option" where
  "find_index' [] y i = None"
| "find_index' (c # cs) y i = (if c = y then Some i else find_index' cs y (Suc i))"

definition label_encoder_transform1 :: "string option \<Rightarrow> py_exception + int" where
  "label_encoder_transform1 y =
     (case y of
        None \<Rightarrow> Inl (ValueError ''y contains previously unseen labels'')
      | Some l \<Rightarrow>
          (case find_index' label_encoder_classes l 0 of
             None \<Rightarrow> Inl (ValueError ''y contains previously unseen labels'')
           | Some i \<Rightarrow> Inr (int i)))"

fun label_encoder_transform :: "string option list \<Rightarrow> py_exception + int list" where
  "label_encoder_transform [] = Inr []"
| "label_encoder_transform (y # ys) =
     and_then (label_encoder_transform1 y) (\<lambda>i.
     and_then (label_encoder_transform ys) (\<lambda>is. Inr (i # is)))"

definition label_encoder_inverse_transform1 :: "int \<Rightarrow> py_exception + string" where
  "label_encoder_inverse_transform1 k =
     (if 0 \<le> k \<and> nat k < length label_encoder_classes
      then Inr (label_encoder_classes ! nat k)
      else Inl (ValueError ''y contains previously unseen labels''))"

section \<open>Feature extraction from a packet\<close>

definition replace_Z :: "string \<Rightarrow> string" where
  "replace_Z s = concat (map (\<lambda>c. if c = CHR ''Z'' then ''+00:00'' else [c]) s)"

definition get_time_features :: "('m, 'sc) env \<Rightarrow> py_timestamp \<Rightarrow> py_exception + nat" where
  "get_time_features env ts =
     (case ts of
        TsStr s \<Rightarrow> fromisoformat_hour env (replace_Z s)
      | TsDatetime h \<Rightarrow> Inr h)"

definition zero_features :: "pynum list" where
  "zero_features = replicate 9 (PInt 0)"

definition extract_features_from_packet :: "('m, 'sc) env \<Rightarrow> packet \<Rightarrow> py_exception + pynum list" where
  "extract_features_from_packet env packet_data =
     try_except
       (and_then (get_time_features env
                    (case timestamp packet_data of None \<Rightarrow> TsDatetime (now_hour env)
                                                 | Some s \<Rightarrow> TsStr s)) (\<lambda>hour.
        and_then (get_port_category (get_default (destinationPort packet_data) (PInt 0))) (\<lambda>port_cat.
        and_then (get_packet_size_category (get_default (packetSize packet_data) (PInt 0))) (\<lambda>size_cat.
        Inr [get_default (packetSize packet_data) (PInt 0),
             get_default (sourcePort packet_data) (PInt 0),
             get_default (destinationPort packet_data) (PInt 0),
             PInt (get_protocol_number (Some (get_default (protocol packet_data) ''''))),
             PInt (int hour),
             PInt port_cat,
             PInt size_cat,
             PInt (get_source_ip_category (Some (get_default (sourceIP packet_data) ''''))),
             PInt (get_destination_ip_category (Some (get_default (destinationIP packet_data) '''')))]))))
       (\<lambda>e. Inr zero_features)"

section \<open>Threat records and packet analysis\<close>

definition lower_char :: "char \<Rightarrow> char" where
  "lower_char c =
     (case map_of (zip ''ABCDEFGHIJKLMNOPQRSTUVWXYZ'' ''abcdefghijklmnopqrstuvwxyz'') c of
        None \<Rightarrow> c | Some l \<Rightarrow> l)"

definition py_lower :: "string \<Rightarrow> string" where
  "py_lower s = map lower_char s"

definition get_threat_description :: "('m, 'sc) env \<Rightarrow> string \<Rightarrow> packet \<Rightarrow> string" where
  "get_threat_description env classification packet_data =
     (let source = get_default (sourceIP packet_data) ''Unknown'';
          destination = get_default (destinationIP packet_data) ''Unknown'';
          dest_port = (case destinationPort packet_data of
                         None \<Rightarrow> ''N/A'' | Some n \<Rightarrow> str_of_num env n);
          descriptions =
            [(''Malware'', ''Malicious activity detected from '' @ source @ '' targeting '' @ destination),
             (''DDoS'', ''Potential DDoS attack detected from '' @ source),
             (''Intrusion'', ''Unauthorized access attempt from '' @ source @ '' to '' @ destination
                               @ '':'' @ dest_port),
             (''Phishing'', ''Phishing attempt detected from '' @ source),
             (''Port_Scan'', ''Port scanning activity detected from '' @ source),
             (''Brute_Force'', ''Brute force attack detected against '' @ destination @ '':'' @ dest_port)]
      in case map_of descriptions classification of
           None \<Rightarrow> ''Suspicious '' @ py_lower classification @ '' activity detected''
         | Some d \<Rightarrow> d)"

record threat_record =
  t_id :: string
  t_timestamp :: string
  t_type :: string
  t_severity :: string
  t_source :: string
  t_destination :: string
  t_sourcePort :: "pynum option"
  t_destinationPort :: "pynum option"
  t_protocol :: string
  t_packetSize :: "pynum option"
  t_description :: string
  t_classification :: string
  t_confidence :: real
  t_networkInterface :: string
  t_rawPacketData :: packet
  t_features :: "pynum list"

text \<open>
  \<^verbatim>\<open>create_threat_record\<close> returns \<open>None\<close> from its \<^verbatim>\<open>except\<close> branch; no step of
  its body raises on a packet of this type, so the result is always a record.
\<close>

definition create_threat_record ::
  "('m, 'sc) env \<Rightarrow> packet \<Rightarrow> string \<Rightarrow> real \<Rightarrow> pynum list \<Rightarrow> threat_record option" where
  "create_threat_record env packet_data classification confidence feats =
     Some \<lparr> t_id = uuid4 env,
            t_timestamp = get_default (timestamp packet_data) (now_isoformat env),
            t_type = get_threat_type classification,
            t_severity = get_severity classification confidence,
            t_source = get_default (sourceIP packet_data) ''Unknown'',
            t_destination = get_default (destinationIP packet_data) ''Unknown'',
            t_sourcePort = sourcePort packet_data,
            t_destinationPort = destinationPort packet_data,
            t_protocol = get_default (protocol packet_data) ''Unknown'',
            t_packetSize = packetSize packet_data,
            t_description = get_threat_description env classification packet_data,
            t_classification = classification,
            t_confidence = confidence,
            t_networkInterface = get_default (networkInterface packet_data) ''Unknown'',
            t_rawPacketData = packet_data,
            t_features = feats \<rparr>"

record analysis =
  classification :: string
  confidence :: real
  threat :: "threat_record option"
  isThreat :: bool

text \<open>
  Lines 391 to 403 of \<^verbatim>\<open>analyze_packet\<close>: features, scaling, prediction, label and
  confidence.  A detector without a scaler raises AttributeError at \<^verbatim>\<open>self.scaler.transform\<close>.
\<close>

definition classify ::
  "('m, 'sc) env \<Rightarrow> ('m, 'sc) threat_detector \<Rightarrow> 'm \<Rightarrow> packet \<Rightarrow>
   py_exception + pynum list \<times> string \<times> real" where
  "classify env d m packet_data =
     and_then (extract_features_from_packet env packet_data) (\<lambda>feats.
     and_then (case scaler d of
                 None \<Rightarrow> Inl (AttributeError ''NoneType object has no attribute transform'')
               | Some sc \<Rightarrow> scaler_transform env sc [feats]) (\<lambda>features_scaled.
     and_then (and_then (forest_predict env m features_scaled) (\<lambda>ps. index ps 0)) (\<lambda>prediction.
     and_then (and_then (forest_predict_proba env m features_scaled) (\<lambda>ps. index ps 0)) (\<lambda>probabilities.
     and_then (label_encoder_inverse_transform1 prediction) (\<lambda>cls.
     and_then (index probabilities (nat prediction)) (\<lambda>conf.
     Inr (feats, cls, conf)))))))"

definition unknown_result :: analysis where
  "unknown_result = \<lparr> classification = ''Unknown'', confidence = 0.5, threat = None, isThreat = False \<rparr>"

definition error_result :: analysis where
  "error_result = \<lparr> classification = ''Error'', confidence = 0, threat = None, isThreat = False \<rparr>"

definition analyze_packet ::
  "('m, 'sc) env \<Rightarrow> ('m, 'sc) threat_detector \<Rightarrow> packet \<Rightarrow> py_exception + analysis" where
  "analyze_packet env d packet_data =
     (case (is_trained d, model d) of
        (True, Some m) \<Rightarrow>
          try_except
            (and_then (classify env d m packet_data) (\<lambda>(feats, cls, conf).
               let is_threat = (cls \<noteq> ''Normal'' \<and> conf > threat_threshold d);
                   thr = (if is_threat then create_threat_record env packet_data cls conf feats
                          else None)
               in Inr \<lparr> classification = cls, confidence = conf, threat = thr, isThreat = is_threat \<rparr>))
            (\<lambda>e. Inr error_result)
      | _ \<Rightarrow> Inr unknown_result)"

section \<open>The packet buffer of NetworkMonitor\<close>

record network_monitor =
  packet_buffer :: "packet list"
  buffer_size :: nat
  packet_handler :: "(packet \<Rightarrow> py_exception + unit) option"

text \<open>\<^verbatim>\<open>NetworkMonitor.__init__\<close>, the fields the buffer uses.\<close>

definition init_monitor :: network_monitor where
  "init_monitor = \<lparr> packet_buffer = [], buffer_size = 1000, packet_handler = None \<rparr>"

definition set_packet_handler ::
  "network_monitor \<Rightarrow> (packet \<Rightarrow> py_exception + unit) \<Rightarrow> network_monitor" where
  "set_packet_handler mon handler = mon\<lparr>packet_handler := Some handler\<rparr>"

text \<open>\<^verbatim>\<open>xs.pop(0)\<close> on the list just appended to, which is never empty.\<close>

definition pop0 :: "'a list \<Rightarrow> 'a list" where
  "pop0 xs = drop 1 xs"

text \<open>
  \<^verbatim>\<open>handle_packet\<close>: the handler runs after the buffer is updated and whatever it
  raises is caught and logged, so the monitor state is the same on both paths.
\<close>

definition handle_packet :: "network_monitor \<Rightarrow> packet \<Rightarrow> network_monitor" where
  "handle_packet mon pkt =
     (let mon1 = mon\<lparr>packet_buffer := packet_buffer mon @ [pkt]\<rparr>;
          mon2 = (if length (packet_buffer mon1) > buffer_size mon1
                  then mon1\<lparr>packet_buffer := pop0 (packet_buffer mon1)\<rparr>
                  else mon1)
      in case packet_handler mon2 of
           None \<Rightarrow> mon2
         | Some handler \<Rightarrow> (case handler pkt of Inl e \<Rightarrow> mon2 | Inr u \<Rightarrow> mon2))"

section \<open>Bulk import of training rows\<close>

record dataframe =
  columns :: "string list"
  df_rows :: "csv_row list"

datatype log_event =
    Warning_invalid_threat_types "string option list"
  | Warning_row_error py_exception

definition required_columns :: "string list" where
  "required_columns =
     [''source_ip'', ''dest_ip'', ''source_port'', ''dest_port'',
      ''protocol'', ''packet_size'', ''duration'', ''threat_type'']"

text \<open>The text of a list of strings inside an f-string.\<close>

fun join :: "string \<Rightarrow> string list \<Rightarrow> string" where
  "join sep [] = []"
| "join sep [x] = x"
| "join sep (x # y # ys) = x @ sep @ join sep (y # ys)"

definition repr_list :: "string list \<Rightarrow> string" where
  "repr_list xs = ''['' @ join '', '' (map (\<lambda>s. [CHR 0x27] @ s @ [CHR 0x27]) xs) @ '']''"

text \<open>\<^verbatim>\<open>float(x)\<close> on a number.\<close>

fun py_float :: "pynum \<Rightarrow> pynum" where
  "py_float (PInt i) = PFloat (of_int i)"
| "py_float (PFloat r) = PFloat r"
| "py_float PNaN = PNaN"

definition extract_features_from_csv_row :: "('m, 'sc) env \<Rightarrow> csv_row \<Rightarrow> py_exception + pynum list" where
  "extract_features_from_csv_row env row =
     try_except
       (and_then (get_time_features env (TsDatetime (now_hour env))) (\<lambda>hour.
        and_then (get_port_category (dest_port row)) (\<lambda>port_cat.
        and_then (get_packet_size_category (packet_size row)) (\<lambda>size_cat.
        Inr [if \<not> isna (packet_size row) then py_float (packet_size row) else PInt 0,
             if \<not> isna (source_port row) then py_float (source_port row) else PInt 0,
             if \<not> isna (dest_port row) then py_float (dest_port row) else PInt 0,
             PInt (get_protocol_number (row_protocol row)),
             PInt (int hour),
             PInt port_cat,
             PInt size_cat,
             PInt (get_ip_type_from_string (source_ip row)),
             PInt (get_ip_type_from_string (dest_ip row))]))))
       (\<lambda>e. Inr zero_features)"

definition is_valid_threat :: "string option \<Rightarrow> bool" where
  "is_valid_threat t = (case t of None \<Rightarrow> False | Some s \<Rightarrow> s \<in> set threat_types)"

text \<open>
  The loop over the rows: a row whose features pass the validation is appended, a row whose
  processing raises is logged and skipped.
\<close>

definition process_row :: "('m, 'sc) env \<Rightarrow> csv_row \<Rightarrow> py_exception + sample option" where
  "process_row env row =
     and_then (extract_features_from_csv_row env row) (\<lambda>feats.
       if length feats = 9 \<and> \<not> list_ex isna feats
       then Inr (Some \<lparr> features = feats, label = threat_type row, raw_data = Some row \<rparr>)
       else Inr None)"

fun process_rows :: "('m, 'sc) env \<Rightarrow> csv_row list \<Rightarrow> sample list \<times> log_event list" where
  "process_rows env [] = ([], [])"
| "process_rows env (row # rest) =
     (let (training_data, logs) = process_rows env rest
      in case process_row env row of
           Inl e \<Rightarrow> (training_data, Warning_row_error e # logs)
         | Inr None \<Rightarrow> (training_data, logs)
         | Inr (Some s) \<Rightarrow> (s # training_data, logs))"

definition process_csv_file ::
  "('m, 'sc) env \<Rightarrow> dataframe \<Rightarrow> (py_exception + sample list) \<times> log_event list" where
  "process_csv_file env df =
     (let missing_columns = filter (\<lambda>col. col \<notin> set (columns df)) required_columns
      in if missing_columns \<noteq> []
         then (Inl (ValueError (''Missing required columns: '' @ repr_list missing_columns)), [])
         else
           let invalid_threats =
                 filter (\<lambda>t. \<not> is_valid_threat t) (remdups (map threat_type (df_rows df)));
               (rows', logs) =
                 (if invalid_threats \<noteq> []
                  then (filter (\<lambda>r. is_valid_threat (threat_type r)) (df_rows df),
                        [Warning_invalid_threat_types invalid_threats])
                  else (df_rows df, []));
               (training_data, row_logs) = process_rows env rows'
           in (Inr training_data, logs @ row_logs))"

section \<open>Training\<close>

record train_result =
  success :: bool
  samplesProcessed :: int
  accuracy :: string
  version :: int
  epochs :: string

text \<open>
  Lines 270 to 284 of \<^verbatim>\<open>train_model\<close>: the samples come from the database or from the
  caller, and the caller's samples are handed to the database first.  Constructing the
  database client can raise; its two methods catch their own exceptions.
\<close>

definition load_training_data ::
  "('m, 'sc) env \<Rightarrow> ('m, 'sc) threat_detector \<Rightarrow> sample list option \<Rightarrow>
   (py_exception + sample list) \<times> ('m, 'sc) threat_detector" where
  "load_training_data env d training_data =
     (case training_data of
        None \<Rightarrow>
          (case database_new env of
             Some e \<Rightarrow> (Inl e, d)
           | None \<Rightarrow> (Inr (get_all_training_data env), d))
      | Some td \<Rightarrow>
          (case database_new env of
             Some e \<Rightarrow> (Inl e, d)
           | None \<Rightarrow> (Inr td, d\<lparr>saved_training_data := saved_training_data d @ td\<rparr>)))"

text \<open>
  Lines 290 to 304: the feature matrix, its width check and the replacement of NaN.
  numpy refuses rows of different lengths.
\<close>

definition nan_to_num :: "pynum list list \<Rightarrow> pynum list list" where
  "nan_to_num X = map (map (\<lambda>v. if isna v then PFloat 0 else v)) X"

definition feature_matrix :: "sample list \<Rightarrow> py_exception + pynum list list" where
  "feature_matrix training_data =
     (let X = map features training_data
      in case X of
           [] \<Rightarrow> Inl (IndexError ''tuple index out of range'')
         | row # _ \<Rightarrow>
             if list_ex (\<lambda>r. length r \<noteq> length row) X
             then Inl (ValueError ''inhomogeneous shape'')
             else if length row \<noteq> 9
             then Inl (ValueError (''Expected 9 features, got '' @ str_nat (length row)))
             else if list_ex (list_ex isna) X then Inr (nan_to_num X)
             else Inr X)"

text \<open>
  Lines 306 to 343: split, scale, encode, fit and evaluate.  \<^verbatim>\<open>self.scaler\<close> and
  \<^verbatim>\<open>self.model\<close> are assigned as the run goes, before the later steps that can raise.
\<close>

definition fit_and_evaluate ::
  "('m, 'sc) env \<Rightarrow> ('m, 'sc) threat_detector \<Rightarrow> pynum list list \<Rightarrow> string option list \<Rightarrow>
   (py_exception + real) \<times> ('m, 'sc) threat_detector" where
  "fit_and_evaluate env d X y =
     (case train_test_split env X y of
        Inl e \<Rightarrow> (Inl e, d)
      | Inr (X_train, X_test, y_train, y_test) \<Rightarrow>
     let d1 = d\<lparr>scaler := Some (scaler_new env)\<rparr> in
     case scaler_fit_transform env (scaler_new env) X_train of
        Inl e \<Rightarrow> (Inl e, d1)
      | Inr (sc, X_train_scaled) \<Rightarrow>
     let d2 = d1\<lparr>scaler := Some sc\<rparr> in
     case scaler_transform env sc X_test of
        Inl e \<Rightarrow> (Inl e, d2)
      | Inr X_test_scaled \<Rightarrow>
     case label_encoder_transform y_train of
        Inl e \<Rightarrow> (Inl e, d2)
      | Inr y_train_encoded \<Rightarrow>
     case label_encoder_transform y_test of
        Inl e \<Rightarrow> (Inl e, d2)
      | Inr y_test_encoded \<Rightarrow>
     let d3 = d2\<lparr>model := Some (forest_new env)\<rparr> in
     case forest_fit env (forest_new env) X_train_scaled y_train_encoded of
        Inl e \<Rightarrow> (Inl e, d3)
      | Inr m \<Rightarrow>
     let d4 = d3\<lparr>model := Some m\<rparr> in
     case forest_predict env m X_test_scaled of
        Inl e \<Rightarrow> (Inl e, d4)
      | Inr y_pred \<Rightarrow>
     case accuracy_score env y_test_encoded y_pred of
        Inl e \<Rightarrow> (Inl e, d4)
      | Inr acc \<Rightarrow>
     case classification_report env y_test_encoded y_pred of
        Inl e \<Rightarrow> (Inl e, d4)
      | Inr u \<Rightarrow> (Inr acc, d4))"

definition save_metadata :: "('m, 'sc) env \<Rightarrow> ('m, 'sc) threat_detector \<Rightarrow> ('m, 'sc) threat_detector" where
  "save_metadata env d =
     (case dump_metadata_error env of
        Some e \<Rightarrow> d
      | None \<Rightarrow>
          d\<lparr>metadata_file :=
               Some \<lparr> md_version = model_version d,
                      md_lastTrainingDate = last_training_date d,
                      md_totalSamplesTrained = total_samples_trained d,
                      md_trainingHistory = training_history d \<rparr>\<rparr>)"

definition save_model ::
  "('m, 'sc) env \<Rightarrow> ('m, 'sc) threat_detector \<Rightarrow> bool \<times> ('m, 'sc) threat_detector" where
  "save_model env d =
     (case dump_model_error env of
        Some e \<Rightarrow> (False, d)
      | None \<Rightarrow>
     let d1 = d\<lparr>model_file := model d\<rparr> in
     case dump_scaler_error env of
        Some e \<Rightarrow> (False, d1)
      | None \<Rightarrow>
     let d2 = d1\<lparr>scaler_file := scaler d1\<rparr> in
     (True, save_metadata env d2))"

definition train_model ::
  "('m, 'sc) env \<Rightarrow> ('m, 'sc) threat_detector \<Rightarrow> sample list option \<Rightarrow>
   (py_exception + train_result) \<times> ('m, 'sc) threat_detector" where
  "train_model env d0 training_data =
     (let d1 = d0\<lparr>model_version := model_version d0 + 1\<rparr> in
      case load_training_data env d1 training_data of
        (Inl e, d2) \<Rightarrow> (Inl e, d2)
      | (Inr data, d2) \<Rightarrow>
      if length data < 10
      then (Inl (ValueError (''Insufficient training data. Need at least 10 samples, got ''
                              @ str_nat (length data))), d2)
      else
      case feature_matrix data of
        Inl e \<Rightarrow> (Inl e, d2)
      | Inr X \<Rightarrow>
      case fit_and_evaluate env d2 X (map label data) of
        (Inl e, d3) \<Rightarrow> (Inl e, d3)
      | (Inr acc, d3) \<Rightarrow>
      let d4 = d3\<lparr>total_samples_trained := total_samples_trained d3 + int (length data),
                   last_training_date := Some (now_isoformat env),
                   is_trained := True\<rparr>;
          training_record = \<lparr> tr_date = now_isoformat env,
                              tr_samples = int (length data),
                              tr_accuracy = format_accuracy env (acc * 100),
                              tr_version = model_version d4 \<rparr>;
          d5 = d4\<lparr>training_history := training_history d4 @ [training_record]\<rparr>;
          (saved, d6) = save_model env d5
      in (Inr \<lparr> success = True,
                samplesProcessed = int (length data),
                accuracy = format_accuracy env (acc * 100),
                version = model_version d6,
                epochs = ''N/A (Random Forest)'' \<rparr>, d6))"

section \<open>The documented feature derivations\<close>

text \<open>
  The field derivations as the specification words them (section 4.1), for comparison with
  the helpers above: protocol code, destination-port category, packet-size category and IP
  locality with the private prefixes written out.
\<close>

definition documented_protocol_code :: "string \<Rightarrow> int" where
  "documented_protocol_code p =
     (if py_upper p = ''TCP'' then 6
      else if py_upper p = ''UDP'' then 17
      else if py_upper p = ''ICMP'' then 1
      else 0)"

definition documented_port_category :: "real \<Rightarrow> int" where
  "documented_port_category x = (if x < 1024 then 1 else if x < 49152 then 2 else 3)"

definition documented_size_category :: "real \<Rightarrow> int" where
  "documented_size_category x =
     (if x < 64 then 1 else if x < 512 then 2 else if x < 1024 then 3 else 4)"

definition documented_private_prefixes :: "string list" where
  "documented_private_prefixes =
     [''10.'', ''192.168.'',
      ''172.16.'', ''172.17.'', ''172.18.'', ''172.19.'', ''172.20.'', ''172.21.'',
      ''172.22.'', ''172.23.'', ''172.24.'', ''172.25.'', ''172.26.'', ''172.27.'',
      ''172.28.'', ''172.29.'', ''172.30.'', ''172.31.'']"

definition documented_ip_locality :: "string \<Rightarrow> int" where
  "documented_ip_locality ip =
     (if ip = [] then 0
      else if list_ex (startswith ip) documented_private_prefixes then 1
      else 2)"

text \<open>
  The nine fields in the documented order, for an observation and an hour.  An absent size or
  port reads as 0; a size or port that is not a number (NaN) is passed on as it is and gets
  category 0, which the documented table does not have.
\<close>

definition documented_features :: "packet \<Rightarrow> nat \<Rightarrow> pynum list" where
  "documented_features packet_data hour =
     (let sz = get_default (packetSize packet_data) (PInt 0);
          sp = get_default (sourcePort packet_data) (PInt 0);
          dp = get_default (destinationPort packet_data) (PInt 0)
      in [sz, sp, dp,
          PInt (documented_protocol_code (get_default (protocol packet_data) '''')),
          PInt (int hour),
          PInt (case num_value dp of None \<Rightarrow> 0 | Some x \<Rightarrow> documented_port_category x),
          PInt (case num_value sz of None \<Rightarrow> 0 | Some x \<Rightarrow> documented_size_category x),
          PInt (documented_ip_locality (get_default (sourceIP packet_data) '''')),
          PInt (documented_ip_locality (get_default (destinationIP packet_data) ''''))])"

text \<open>The closed label set of the specification (section 3).\<close>

definition closed_label_set :: "string set" where
  "closed_label_set =
     {''Normal'', ''Malware'', ''DDoS'', ''Intrusion'', ''Phishing'', ''Port_Scan'', ''Brute_Force''}"

text \<open>The samples a call of \<open>train_model\<close> is about: the caller's, or the database's.\<close>

definition supplied_samples :: "('m, 'sc) env \<Rightarrow> sample list option \<Rightarrow> sample list" where
  "supplied_samples env training_data =
     (case training_data of None \<Rightarrow> get_all_training_data env | Some td \<Rightarrow> td)"

section \<open>Example collaborators and inputs\<close>

text \<open>
  A concrete clock, scaler, forest and database for evaluating the definitions: the scaler
  is the identity, the forest always predicts position 6 (Port\_Scan) with probability 0.95.
\<close>

definition example_str_of_num :: "pynum \<Rightarrow> string" where
  "example_str_of_num n =
     (case n of
        PInt i \<Rightarrow> if i < 0 then ''-'' @ str_nat (nat (- i)) else str_nat (nat i)
      | PFloat r \<Rightarrow> ''float''
      | PNaN \<Rightarrow> ''nan'')"

definition example_env :: "(nat, nat) env" where
  "example_env =
     \<lparr> now_hour = 12,
       now_isoformat = ''2024-05-01T12:30:00'',
       fromisoformat_hour =
         (\<lambda>s. if s = ''2024-05-01T09:15:00'' then Inr 9
              else Inl (ValueError ''Invalid isoformat string'')),
       uuid4 = ''00000000-0000-4000-8000-000000000000'',
       str_of_num = example_str_of_num,
       format_accuracy = (\<lambda>a. ''100.00''),
       scaler_new = 0,
       scaler_fit_transform = (\<lambda>sc X. Inr (3, X)),
       scaler_transform = (\<lambda>sc X. Inr X),
       forest_new = 0,
       forest_fit = (\<lambda>m X y. Inr 7),
       forest_predict = (\<lambda>m X. Inr (map (\<lambda>r. 6) X)),
       forest_predict_proba = (\<lambda>m X. Inr (map (\<lambda>r. [0, 0, 0, 0, 0.05, 0, 0.95]) X)),
       train_test_split = (\<lambda>X y. Inr (take 8 X, drop 8 X, take 8 y, drop 8 y)),
       accuracy_score = (\<lambda>t p. Inr 1),
       classification_report = (\<lambda>t p. Inr ()),
       database_new = None,
       get_all_training_data = [],
       dump_model_error = None,
       dump_scaler_error = None,
       dump_metadata_error = None \<rparr>"

definition example_packet :: packet where
  "example_packet =
     \<lparr> timestamp = Some ''2024-05-01T09:15:00'',
       sourceIP = Some ''192.168.1.100'',
       sourcePort = Some (PInt 4444),
       destinationIP = Some ''8.8.8.8'',
       destinationPort = Some (PInt 22),
       protocol = Some ''tcp'',
       packetSize = Some (PInt 40),
       networkInterface = Some ''eth0'' \<rparr>"

definition empty_packet :: packet where
  "empty_packet = \<lparr> timestamp = None, sourceIP = None, sourcePort = None, destinationIP = None,
     destinationPort = None, protocol = None, packetSize = None, networkInterface = None \<rparr>"

definition example_bad_timestamp_packet :: packet where
  "example_bad_timestamp_packet = example_packet\<lparr>timestamp := Some ''not-a-date''\<rparr>"


definition example_detector :: "(nat, nat) threat_detector" where
  "example_detector =
     (init_detector None None None None)\<lparr>model := Some 7, scaler := Some 3, is_trained := True\<rparr>"

definition example_row :: "string \<Rightarrow> csv_row" where
  "example_row t =
     \<lparr> source_ip = Some ''10.0.0.5'', dest_ip = Some ''8.8.8.8'', source_port = PInt 4444,
       dest_port = PInt 22, row_protocol = Some ''TCP'', packet_size = PInt 40,
       duration = PFloat 0.5, threat_type = Some t \<rparr>"

definition example_sample :: "string \<Rightarrow> sample" where
  "example_sample t =
     \<lparr> features = [PFloat 40, PFloat 4444, PFloat 22, PInt 6, PInt 12, PInt 1, PInt 1, PInt 1, PInt 2],
       label = Some t, raw_data = Some (example_row t) \<rparr>"

definition example_training_data :: "nat \<Rightarrow> sample list" where
  "example_training_data n =
     map (\<lambda>i. example_sample (if even i then ''Normal'' else ''Port_Scan'')) [0..<n]"

definition example_dataframe :: dataframe where
  "example_dataframe =
     \<lparr> columns = [''source_ip'', ''dest_ip'', ''source_port'', ''dest_port'', ''protocol'',
                   ''packet_size'', ''duration'', ''threat_type'', ''comment''],
       df_rows = [example_row ''Normal'', example_row ''Foo'', example_row ''Port_Scan''] \<rparr>"

section \<open>Category helpers on missing values\<close>

lemma get_port_category_cases:
  "get_port_category v =
     (case num_value v of
        None \<Rightarrow> Inr 0
      | Some x \<Rightarrow> if x < 1024 then Inr 1 else if x < 49152 then Inr 2 else Inr 3)"
proof (cases v)
  case (PFloat r)
  have "(\<lfloor>r\<rfloor> < 1024) = (r < 1024)" "(\<lfloor>r\<rfloor> < 49152) = (r < 49152)"
    by (simp_all add: floor_less_iff)
  moreover have "r < 0 \<Longrightarrow> \<lceil>r\<rceil> < 1024 \<and> \<lceil>r\<rceil> < 49152"
    by (simp add: ceiling_less_iff)
  ultimately show ?thesis
    using PFloat by (auto simp: get_port_category_def)
qed (simp_all add: get_port_category_def)

lemma get_packet_size_category_cases:
  "get_packet_size_category v =
     (case num_value v of
        None \<Rightarrow> Inr 0
      | Some x \<Rightarrow> if x < 64 then Inr 1 else if x < 512 then Inr 2
                  else if x < 1024 then Inr 3 else Inr 4)"
proof (cases v)
  case (PFloat r)
  have "(\<lfloor>r\<rfloor> < 64) = (r < 64)" "(\<lfloor>r\<rfloor> < 512) = (r < 512)" "(\<lfloor>r\<rfloor> < 1024) = (r < 1024)"
    by (simp_all add: floor_less_iff)
  moreover have "r < 0 \<Longrightarrow> \<lceil>r\<rceil> < 64"
    by (simp add: ceiling_less_iff)
  ultimately show ?thesis
    using PFloat by (auto simp: get_packet_size_category_def)
qed (simp_all add: get_packet_size_category_def)

text \<open>
  Claim C10.  On a missing (NaN) input both category helpers return 0, which lies outside
  the documented category ranges 1..3 (port) and 1..4 (size); every present number gets a
  category inside the documented range, and the present number 0 gets category 1.
\<close>

theorem category_of_missing_is_zero:
  "get_port_category PNaN = Inr 0 \<and> get_packet_size_category PNaN = Inr 0
   \<and> get_port_category (PInt 0) = Inr 1 \<and> get_packet_size_category (PInt 0) = Inr 1
   \<and> get_port_category (PFloat 0) = Inr 1 \<and> get_packet_size_category (PFloat 0) = Inr 1
   \<and> (get_port_category v = Inr 0) = (v = PNaN)
   \<and> (get_packet_size_category v = Inr 0) = (v = PNaN)
   \<and> (get_port_category v \<in> {Inr 1, Inr 2, Inr 3}) = (v \<noteq> PNaN)
   \<and> (get_packet_size_category v \<in> {Inr 1, Inr 2, Inr 3, Inr 4}) = (v \<noteq> PNaN)"
proof -
  have "(get_port_category v = Inr 0) = (v = PNaN)"
    "(get_port_category v \<in> {Inr 1, Inr 2, Inr 3}) = (v \<noteq> PNaN)"
    by (cases v; simp add: get_port_category_cases)+
  moreover have "(get_packet_size_category v = Inr 0) = (v = PNaN)"
    "(get_packet_size_category v \<in> {Inr 1, Inr 2, Inr 3, Inr 4}) = (v \<noteq> PNaN)"
    by (cases v; simp add: get_packet_size_category_cases)+
  ultimately show ?thesis
    by (simp add: get_port_category_def get_packet_size_category_def)
qed

section \<open>Severity of a threat record\<close>

text \<open>
  Claim C2.  The severity stored in a threat record is determined by the confidence alone:
  above 0.9 Critical, above 0.8 High, above 0.7 Medium, otherwise Low, whatever the
  classification; 0.9001 is Critical, exactly 0.9 is High and exactly 0.8 is Medium.
\<close>

theorem severity_by_confidence:
  "map_option t_severity (create_threat_record env packet_data cls conf feats) =
     Some (if conf > 0.9 then ''Critical'' else if conf > 0.8 then ''High''
           else if conf > 0.7 then ''Medium'' else ''Low'')
   \<and> get_severity cls conf = get_severity cls' conf
   \<and> get_severity cls 0.9001 = ''Critical''
   \<and> get_severity cls 0.9 = ''High''
   \<and> get_severity cls 0.8 = ''Medium''"
  by (simp add: create_threat_record_def get_severity_def)

section \<open>The bounded packet buffer\<close>

lemma handle_packet_buffer:
  "packet_buffer (handle_packet mon pkt) =
     (if length (packet_buffer mon) + 1 > buffer_size mon
      then drop 1 (packet_buffer mon @ [pkt]) else packet_buffer mon @ [pkt])"
  "buffer_size (handle_packet mon pkt) = buffer_size mon"
  "packet_handler (handle_packet mon pkt) = packet_handler mon"
  by (simp_all add: handle_packet_def pop0_def Let_def split: option.splits sum.splits)

lemma foldl_handle_packet_inv:
  "buffer_size mon = 1000 \<Longrightarrow> length (packet_buffer mon) \<le> 1000 \<Longrightarrow>
   buffer_size (foldl handle_packet mon ps) = 1000
   \<and> length (packet_buffer (foldl handle_packet mon ps)) \<le> 1000"
proof (induction ps arbitrary: mon)
  case Nil
  then show ?case by simp
next
  case (Cons p ps)
  have "buffer_size (handle_packet mon p) = 1000"
    using Cons.prems by (simp add: handle_packet_buffer)
  moreover have "length (packet_buffer (handle_packet mon p)) \<le> 1000"
    using Cons.prems by (auto simp add: handle_packet_buffer)
  ultimately show ?case
    using Cons.IH by simp
qed

text \<open>
  Claim C9.  The packet buffer never holds more than 1000 packets: from the initial monitor,
  with or without a handler, after any sequence of \<open>handle_packet\<close> calls; one call
  keeps the bound, and on a full buffer it drops the oldest packet and appends the new one.
\<close>

theorem packet_buffer_bounded:
  "length (packet_buffer (foldl handle_packet (set_packet_handler init_monitor h) ps)) \<le> 1000
   \<and> length (packet_buffer (foldl handle_packet init_monitor ps)) \<le> 1000
   \<and> (buffer_size mon = 1000 \<and> length (packet_buffer mon) \<le> 1000 \<longrightarrow>
        length (packet_buffer (handle_packet mon pkt)) \<le> 1000
        \<and> buffer_size (handle_packet mon pkt) = 1000
        \<and> (length (packet_buffer mon) = 1000 \<longrightarrow>
             packet_buffer (handle_packet mon pkt) = tl (packet_buffer mon) @ [pkt])
        \<and> (length (packet_buffer mon) < 1000 \<longrightarrow>
             packet_buffer (handle_packet mon pkt) = packet_buffer mon @ [pkt]))"
proof -
  have a: "length (packet_buffer (foldl handle_packet (set_packet_handler init_monitor h) ps)) \<le> 1000"
    by (rule foldl_handle_packet_inv [THEN conjunct2])
       (simp_all add: set_packet_handler_def init_monitor_def)
  have b: "length (packet_buffer (foldl handle_packet init_monitor ps)) \<le> 1000"
    by (rule foldl_handle_packet_inv [THEN conjunct2]) (simp_all add: init_monitor_def)
  have c: "packet_buffer (handle_packet mon pkt) = tl (packet_buffer mon) @ [pkt]"
    if "buffer_size mon = 1000" "length (packet_buffer mon) = 1000"
  proof -
    have "packet_buffer mon \<noteq> []" using that by auto
    then show ?thesis using that by (simp add: handle_packet_buffer drop_Suc)
  qed
  show ?thesis
    using a b c by (auto simp: handle_packet_buffer)
qed

theorem packet_buffer_bounded_witness:
  "buffer_size (init_monitor\<lparr>packet_buffer := replicate 1000 example_packet\<rparr>) = 1000
   \<and> length (packet_buffer (init_monitor\<lparr>packet_buffer := replicate 1000 example_packet\<rparr>)) = 1000
   \<and> packet_buffer (handle_packet (init_monitor\<lparr>packet_buffer := replicate 1000 example_packet\<rparr>)
                      (example_packet\<lparr>protocol := Some ''udp''\<rparr>))
       = tl (replicate 1000 example_packet) @ [example_packet\<lparr>protocol := Some ''udp''\<rparr>]
   \<and> length (packet_buffer init_monitor) < 1000
   \<and> packet_buffer (handle_packet init_monitor example_packet) = [example_packet]"
  using packet_buffer_bounded
          [of "\<lambda>p. Inr ()" "[]" "init_monitor\<lparr>packet_buffer := replicate 1000 example_packet\<rparr>"
              "example_packet\<lparr>protocol := Some ''udp''\<rparr>"]
        packet_buffer_bounded [of "\<lambda>p. Inr ()" "[]" init_monitor example_packet]
  by (simp add: init_monitor_def)

section \<open>Feature extraction follows the documented derivations\<close>

lemma str_nat_16_31:
  "map str_nat [16..<32] =
     [''16'', ''17'', ''18'', ''19'', ''20'', ''21'', ''22'', ''23'',
      ''24'', ''25'', ''26'', ''27'', ''28'', ''29'', ''30'', ''31'']"
  by code_simp

lemma get_ip_type_documented:
  "get_ip_type_from_string (Some ip) = documented_ip_locality ip"
proof -
  have "list_ex (\<lambda>i. startswith ip (''172.'' @ str_nat i @ ''.'')) [16..<32]
        = list_ex (\<lambda>n. startswith ip (''172.'' @ n @ ''.'')) (map str_nat [16..<32])"
    by (simp add: list_ex_iff)
  then show ?thesis
    unfolding get_ip_type_from_string_def documented_ip_locality_def
      documented_private_prefixes_def str_nat_16_31
    by auto
qed

lemma get_protocol_documented:
  "get_protocol_number (Some p) = documented_protocol_code p"
  by (simp add: get_protocol_number_def documented_protocol_code_def protocol_map_def)

lemma categories_never_raise:
  "\<exists>c. get_port_category v = Inr c" "\<exists>c. get_packet_size_category v = Inr c"
  by (cases v; simp add: get_port_category_cases get_packet_size_category_cases)+

lemma extract_features_total:
  "\<exists>fs. extract_features_from_packet env p = Inr fs \<and> length fs = 9"
proof -
  obtain pc sc where "get_port_category (get_default (destinationPort p) (PInt 0)) = Inr pc"
    "get_packet_size_category (get_default (packetSize p) (PInt 0)) = Inr sc"
    using categories_never_raise by metis
  then show ?thesis
    by (simp add: extract_features_from_packet_def try_except_def and_then_def zero_features_def
        split: sum.splits)
qed

lemma extract_features_with_hour:
  assumes "get_time_features env
             (case timestamp p of None \<Rightarrow> TsDatetime (now_hour env) | Some s \<Rightarrow> TsStr s) = Inr h"
  shows "extract_features_from_packet env p = Inr (documented_features p h)"
  unfolding extract_features_from_packet_def assms documented_features_def Let_def
  by (simp add: try_except_def and_then_def get_ip_type_documented get_protocol_documented
      get_source_ip_category_def get_destination_ip_category_def
      get_port_category_cases get_packet_size_category_cases
      documented_port_category_def documented_size_category_def split: option.splits)

lemma extract_features_parse_error:
  assumes "timestamp p = Some s" "fromisoformat_hour env (replace_Z s) = Inl e"
  shows "extract_features_from_packet env p = Inr (replicate 9 (PInt 0))"
  using assms
  by (simp add: extract_features_from_packet_def try_except_def and_then_def
      zero_features_def get_time_features_def)



lemma documented_examples:
  "documented_protocol_code ''tcp'' = 6" "documented_protocol_code '''' = 0"
  "documented_ip_locality ''192.168.1.100'' = 1" "documented_ip_locality ''8.8.8.8'' = 2"
  "documented_ip_locality '''' = 0"
  by (simp_all add: documented_protocol_code_def py_upper_def upper_char_def
      documented_ip_locality_def documented_private_prefixes_def startswith_def)

lemma example_timestamp_parses:
  "fromisoformat_hour example_env (replace_Z ''2024-05-01T09:15:00'') = Inr 9"
  by (simp add: example_env_def replace_Z_def)

lemma example_packet_features:
  "extract_features_from_packet example_env example_packet =
     Inr [PInt 40, PInt 4444, PInt 22, PInt 6, PInt 9, PInt 1, PInt 1, PInt 1, PInt 2]"
proof -
  have "get_time_features example_env
          (case timestamp example_packet of
             None \<Rightarrow> TsDatetime (now_hour example_env) | Some s \<Rightarrow> TsStr s) = Inr 9"
    by (simp add: example_packet_def get_time_features_def example_timestamp_parses)
  from extract_features_with_hour [OF this]
  show ?thesis
    by (simp add: documented_features_def Let_def example_packet_def get_default_def
        documented_examples documented_size_category_def documented_port_category_def)
qed

lemma empty_packet_features:
  "extract_features_from_packet example_env empty_packet =
     Inr [PInt 0, PInt 0, PInt 0, PInt 0, PInt 12, PInt 1, PInt 1, PInt 0, PInt 0]"
proof -
  have "get_time_features example_env
          (case timestamp empty_packet of
             None \<Rightarrow> TsDatetime (now_hour example_env) | Some s \<Rightarrow> TsStr s) = Inr 12"
    by (simp add: empty_packet_def get_time_features_def example_env_def)
  from extract_features_with_hour [OF this]
  show ?thesis
    by (simp add: documented_features_def Let_def empty_packet_def get_default_def documented_examples
        documented_size_category_def documented_port_category_def)
qed

lemma example_bad_timestamp_fields:
  "timestamp example_bad_timestamp_packet = Some ''not-a-date''"
  "protocol example_bad_timestamp_packet = Some ''tcp''"
  "fromisoformat_hour example_env (replace_Z ''not-a-date'') =
     Inl (ValueError ''Invalid isoformat string'')"
  by (simp_all add: example_bad_timestamp_packet_def example_packet_def example_env_def
      replace_Z_def)

lemma example_bad_timestamp_features:
  "extract_features_from_packet example_env example_bad_timestamp_packet =
     Inr [PInt 0, PInt 0, PInt 0, PInt 0, PInt 0, PInt 0, PInt 0, PInt 0, PInt 0]"
proof -
  have "replicate 9 (PInt 0) =
      [PInt 0, PInt 0, PInt 0, PInt 0, PInt 0, PInt 0, PInt 0, PInt 0, PInt 0]"
    by (simp add: numeral_eq_Suc)
  then show ?thesis
    using extract_features_parse_error [OF example_bad_timestamp_fields(1,3)] by simp
qed





section \<open>Packet analysis with a trained model\<close>

text \<open>The encoder's classes are the seven threat types, each once.\<close>

lemma label_encoder_classes_threat_types:
  "set label_encoder_classes = set threat_types" "distinct label_encoder_classes"
  by (auto simp: label_encoder_classes_def threat_types_def)

lemma analyze_packet_trained:
  assumes "is_trained d" "model d = Some m"
  shows "analyze_packet env d p =
     (case classify env d m p of
        Inl e \<Rightarrow> Inr error_result
      | Inr (feats, cls, conf) \<Rightarrow>
          Inr \<lparr> classification = cls, confidence = conf,
                threat = (if cls \<noteq> ''Normal'' \<and> conf > threat_threshold d
                          then create_threat_record env p cls conf feats else None),
                isThreat = (cls \<noteq> ''Normal'' \<and> conf > threat_threshold d) \<rparr>)"
  using assms
  by (simp add: analyze_packet_def try_except_def and_then_def Let_def split: sum.splits prod.splits)

lemma example_classify:
  "scaler d = Some sc \<Longrightarrow>
   classify example_env d m example_packet =
     Inr ([PInt 40, PInt 4444, PInt 22, PInt 6, PInt 9, PInt 1, PInt 1, PInt 1, PInt 2],
          ''Port_Scan'', 0.95)"
  unfolding classify_def example_packet_features
  by (simp add: and_then_def example_env_def index_def label_encoder_inverse_transform1_def
      label_encoder_classes_def)

lemma example_classify_no_scaler:
  "scaler d = None \<Longrightarrow>
   classify example_env d m example_packet =
     Inl (AttributeError ''NoneType object has no attribute transform'')"
  unfolding classify_def example_packet_features
  by (simp add: and_then_def)

lemma example_detector_fields:
  "is_trained example_detector" "model example_detector = Some 7"
  "scaler example_detector = Some 3" "threat_threshold example_detector = 0.7"
  by (simp_all add: example_detector_def init_detector_def get_default_def)

text \<open>
  Claim C1.  With a trained model, the threat flag of the result is true exactly when the
  classification step yields a label other than Normal with a confidence strictly above the
  configured threshold (0.7 when not configured); the result carries that label and
  confidence, and a confidence equal to the threshold is not a threat.
\<close>

theorem threat_flag_iff_above_threshold:
  assumes "is_trained d" "model d = Some m"
  shows "\<exists>r. analyze_packet env d p = Inr r \<and>
     (case classify env d m p of
        Inl e \<Rightarrow> \<not> isThreat r
      | Inr (feats, cls, conf) \<Rightarrow>
          classification r = cls \<and> confidence r = conf
          \<and> isThreat r = (cls \<noteq> ''Normal'' \<and> conf > threat_threshold d)
          \<and> (conf = threat_threshold d \<longrightarrow> \<not> isThreat r))
     \<and> threat_threshold (init_detector None mf sf mdf :: ('m, 'sc) threat_detector) = 0.7"
  unfolding analyze_packet_trained [OF assms]
  by (auto simp: error_result_def init_detector_def get_default_def split: sum.splits)

theorem threat_flag_iff_above_threshold_witness:
  "is_trained example_detector \<and> model example_detector = Some 7
   \<and> classify example_env example_detector 7 example_packet =
       Inr ([PInt 40, PInt 4444, PInt 22, PInt 6, PInt 9, PInt 1, PInt 1, PInt 1, PInt 2],
            ''Port_Scan'', 0.95)
   \<and> threat_threshold example_detector = 0.7
   \<and> (case analyze_packet example_env example_detector example_packet of
         Inl e \<Rightarrow> False
       | Inr r \<Rightarrow> classification r = ''Port_Scan'' \<and> confidence r = 0.95 \<and> isThreat r)
   \<and> is_trained (example_detector\<lparr>threat_threshold := 0.95\<rparr>)
   \<and> model (example_detector\<lparr>threat_threshold := 0.95\<rparr>) = Some 7
   \<and> classify example_env (example_detector\<lparr>threat_threshold := 0.95\<rparr>) 7 example_packet =
       Inr ([PInt 40, PInt 4444, PInt 22, PInt 6, PInt 9, PInt 1, PInt 1, PInt 1, PInt 2],
            ''Port_Scan'', 0.95)
   \<and> (case analyze_packet example_env (example_detector\<lparr>threat_threshold := 0.95\<rparr>) example_packet of
         Inl e \<Rightarrow> False
       | Inr r \<Rightarrow> classification r = ''Port_Scan'' \<and> confidence r = 0.95 \<and> \<not> isThreat r)"
proof -
  have s1: "scaler example_detector = Some 3"
    and s2: "scaler (example_detector\<lparr>threat_threshold := 0.95\<rparr>) = Some 3"
    by (simp_all add: example_detector_fields)
  have t: "is_trained (example_detector\<lparr>threat_threshold := 0.95\<rparr>)"
    "model (example_detector\<lparr>threat_threshold := 0.95\<rparr>) = Some 7"
    by (simp_all add: example_detector_fields)
  obtain r1 where r1: "analyze_packet example_env example_detector example_packet = Inr r1"
    "classification r1 = ''Port_Scan''" "confidence r1 = 0.95" "isThreat r1"
    using threat_flag_iff_above_threshold
            [OF example_detector_fields(1,2), of example_env example_packet None None None]
    unfolding example_classify [OF s1]
    by (auto simp: example_detector_fields)
  obtain r2 where r2:
    "analyze_packet example_env (example_detector\<lparr>threat_threshold := 0.95\<rparr>) example_packet = Inr r2"
    "classification r2 = ''Port_Scan''" "confidence r2 = 0.95" "\<not> isThreat r2"
    using threat_flag_iff_above_threshold [OF t, of example_env example_packet None None None]
    unfolding example_classify [OF s2]
    by auto
  show ?thesis
    unfolding example_classify [OF s1] example_classify [OF s2] r1(1) r2(1)
    using r1(2-) r2(2-) t by (simp add: example_detector_fields)
qed

lemma example_classify_bad_timestamp:
  "scaler d = Some sc \<Longrightarrow>
   classify example_env d m example_bad_timestamp_packet =
     Inr ([PInt 0, PInt 0, PInt 0, PInt 0, PInt 0, PInt 0, PInt 0, PInt 0, PInt 0],
          ''Port_Scan'', 0.95)"
  unfolding classify_def example_bad_timestamp_features
  by (simp add: and_then_def example_env_def index_def label_encoder_inverse_transform1_def
      label_encoder_classes_def)

lemma classify_after_parse_error:
  assumes "timestamp p = Some s" "fromisoformat_hour env (replace_Z s) = Inl e"
    and "classify env d m p = Inr (feats, cls, conf)"
  shows "feats = replicate 9 (PInt 0)"
  using assms(3)
  unfolding classify_def extract_features_parse_error [OF assms(1,2)]
  by (auto simp: and_then_def split: sum.splits option.splits)


text \<open>
  Claim C7 as stated does not hold for every exception.  The ValueError that the timestamp
  parse raises during feature extraction is absorbed there; the zero vector is classified
  and the result is the model's prediction for it, here a threat, not the Error result.
\<close>

theorem absorbed_extraction_error_counterexample:
  "timestamp example_bad_timestamp_packet = Some ''not-a-date''
   \<and> get_time_features example_env (TsStr ''not-a-date'') =
       Inl (ValueError ''Invalid isoformat string'')
   \<and> is_trained example_detector \<and> model example_detector = Some 7
   \<and> analyze_packet example_env example_detector example_bad_timestamp_packet =
       Inr \<lparr> classification = ''Port_Scan'', confidence = 0.95,
             threat = create_threat_record example_env example_bad_timestamp_packet
                        ''Port_Scan'' 0.95
                        [PInt 0, PInt 0, PInt 0, PInt 0, PInt 0, PInt 0, PInt 0, PInt 0, PInt 0],
             isThreat = True \<rparr>"
proof -
  have "analyze_packet example_env example_detector example_bad_timestamp_packet =
       Inr \<lparr> classification = ''Port_Scan'', confidence = 0.95,
             threat = create_threat_record example_env example_bad_timestamp_packet
                        ''Port_Scan'' 0.95
                        [PInt 0, PInt 0, PInt 0, PInt 0, PInt 0, PInt 0, PInt 0, PInt 0, PInt 0],
             isThreat = True \<rparr>"
    unfolding analyze_packet_trained [OF example_detector_fields(1,2)]
      example_classify_bad_timestamp [OF example_detector_fields(3)]
    by (simp add: example_detector_fields)
  then show ?thesis
    by (simp add: example_bad_timestamp_fields example_detector_fields get_time_features_def)
qed

text \<open>
  Claim C7, amended.  \<open>analyze_packet\<close> always returns a result and never passes
  an exception on.  Feature extraction itself never raises.  When a later step of the
  classification (scaling, prediction, decoding of the label, lookup of the confidence)
  raises, the result is the neutral one: label Error, confidence 0, not a threat, no threat
  record.  When the timestamp does not parse, the exception is absorbed inside feature
  extraction: the vector of nine zeros is classified, and if that succeeds the result is the
  ordinary one for its label and confidence.
\<close>

theorem classification_exceptions_amended:
  "(\<exists>r. analyze_packet env d p = Inr r)
   \<and> (\<exists>fs. extract_features_from_packet env p = Inr fs)
   \<and> (is_trained d \<and> model d = Some m \<and> classify env d m p = Inl e \<longrightarrow>
        analyze_packet env d p =
          Inr \<lparr> classification = ''Error'', confidence = 0, threat = None, isThreat = False \<rparr>)
   \<and> (is_trained d \<and> model d = Some m \<and> timestamp p = Some s
        \<and> fromisoformat_hour env (replace_Z s) = Inl e'
        \<and> classify env d m p = Inr (feats, cls, conf) \<longrightarrow>
        feats = replicate 9 (PInt 0)
        \<and> analyze_packet env d p =
            Inr \<lparr> classification = cls, confidence = conf,
                  threat = (if cls \<noteq> ''Normal'' \<and> conf > threat_threshold d
                            then create_threat_record env p cls conf feats else None),
                  isThreat = (cls \<noteq> ''Normal'' \<and> conf > threat_threshold d) \<rparr>)"
proof -
  have "\<exists>r. analyze_packet env d p = Inr r"
    by (auto simp: analyze_packet_def try_except_def and_then_def Let_def
        split: sum.splits prod.splits bool.splits option.splits)
  moreover have "\<exists>fs. extract_features_from_packet env p = Inr fs"
    using extract_features_total by blast
  moreover have "analyze_packet env d p = Inr error_result"
    if "is_trained d" "model d = Some m" "classify env d m p = Inl e"
    using that by (simp add: analyze_packet_trained)
  moreover have "feats = replicate 9 (PInt 0)"
    if "timestamp p = Some s" "fromisoformat_hour env (replace_Z s) = Inl e'"
      "classify env d m p = Inr (feats, cls, conf)"
    using that by (rule classify_after_parse_error)
  moreover have "analyze_packet env d p =
            Inr \<lparr> classification = cls, confidence = conf,
                  threat = (if cls \<noteq> ''Normal'' \<and> conf > threat_threshold d
                            then create_threat_record env p cls conf feats else None),
                  isThreat = (cls \<noteq> ''Normal'' \<and> conf > threat_threshold d) \<rparr>"
    if "is_trained d" "model d = Some m" "classify env d m p = Inr (feats, cls, conf)"
    using that by (simp add: analyze_packet_trained)
  ultimately show ?thesis
    by (simp add: error_result_def)
qed

theorem classification_exceptions_amended_witness:
  "is_trained (example_detector\<lparr>scaler := None\<rparr>)
   \<and> model (example_detector\<lparr>scaler := None\<rparr>) = Some 7
   \<and> classify example_env (example_detector\<lparr>scaler := None\<rparr>) 7 example_packet =
       Inl (AttributeError ''NoneType object has no attribute transform'')
   \<and> analyze_packet example_env (example_detector\<lparr>scaler := None\<rparr>) example_packet =
       Inr \<lparr> classification = ''Error'', confidence = 0, threat = None, isThreat = False \<rparr>
   \<and> is_trained example_detector \<and> model example_detector = Some 7
   \<and> timestamp example_bad_timestamp_packet = Some ''not-a-date''
   \<and> fromisoformat_hour example_env (replace_Z ''not-a-date'') =
       Inl (ValueError ''Invalid isoformat string'')
   \<and> classify example_env example_detector 7 example_bad_timestamp_packet =
       Inr (replicate 9 (PInt 0), ''Port_Scan'', 0.95)
   \<and> analyze_packet example_env example_detector example_bad_timestamp_packet =
       Inr \<lparr> classification = ''Port_Scan'', confidence = 0.95,
             threat = create_threat_record example_env example_bad_timestamp_packet
                        ''Port_Scan'' 0.95 (replicate 9 (PInt 0)),
             isThreat = True \<rparr>"
proof -
  have c: "classify example_env (example_detector\<lparr>scaler := None\<rparr>) 7 example_packet =
       Inl (AttributeError ''NoneType object has no attribute transform'')"
    by (rule example_classify_no_scaler) simp
  have t: "is_trained (example_detector\<lparr>scaler := None\<rparr>)"
    "model (example_detector\<lparr>scaler := None\<rparr>) = Some 7"
    by (simp_all add: example_detector_fields)
  have r: "replicate 9 (PInt 0) =
      [PInt 0, PInt 0, PInt 0, PInt 0, PInt 0, PInt 0, PInt 0, PInt 0, PInt 0]"
    by (simp add: numeral_eq_Suc)
  have b: "classify example_env example_detector 7 example_bad_timestamp_packet =
       Inr (replicate 9 (PInt 0), ''Port_Scan'', 0.95)"
    unfolding r by (rule example_classify_bad_timestamp) (rule example_detector_fields(3))
  have e: "analyze_packet example_env (example_detector\<lparr>scaler := None\<rparr>) example_packet =
       Inr \<lparr> classification = ''Error'', confidence = 0, threat = None, isThreat = False \<rparr>"
    using classification_exceptions_amended
            [of example_env "example_detector\<lparr>scaler := None\<rparr>" example_packet 7
                "AttributeError ''NoneType object has no attribute transform''"]
      t c by blast
  have a: "analyze_packet example_env example_detector example_bad_timestamp_packet =
       Inr \<lparr> classification = ''Port_Scan'', confidence = 0.95,
             threat = create_threat_record example_env example_bad_timestamp_packet
                        ''Port_Scan'' 0.95 (replicate 9 (PInt 0)),
             isThreat = True \<rparr>"
    using classification_exceptions_amended
            [where env = example_env and d = example_detector
               and p = example_bad_timestamp_packet and m = 7 and s = "''not-a-date''"
               and e' = "ValueError ''Invalid isoformat string''"
               and feats = "replicate 9 (PInt 0)" and cls = "''Port_Scan''" and conf = "0.95"]
      example_detector_fields example_bad_timestamp_fields b
    by simp
  show ?thesis
    using t c e a b example_detector_fields(1,2) example_bad_timestamp_fields(1,3) by blast
qed

section \<open>The version counter and rejected training runs\<close>

lemma load_training_data_state:
  "\<exists>xs. snd (load_training_data env d td) = d\<lparr>saved_training_data := xs\<rparr>"
proof (cases "database_new env")
  case None
  show ?thesis
  proof (cases td)
    case None
    have "snd (load_training_data env d td) = d\<lparr>saved_training_data := saved_training_data d\<rparr>"
      using None \<open>database_new env = None\<close> by (simp add: load_training_data_def)
    then show ?thesis by blast
  next
    case (Some xs)
    have "snd (load_training_data env d td) =
            d\<lparr>saved_training_data := saved_training_data d @ xs\<rparr>"
      using Some \<open>database_new env = None\<close> by (simp add: load_training_data_def)
    then show ?thesis by blast
  qed
next
  case (Some e)
  have "snd (load_training_data env d td) = d\<lparr>saved_training_data := saved_training_data d\<rparr>"
    using Some by (simp add: load_training_data_def split: option.splits)
  then show ?thesis by blast
qed

lemma load_training_data_result:
  "fst (load_training_data env d td) =
     (case database_new env of Some e \<Rightarrow> Inl e | None \<Rightarrow> Inr (supplied_samples env td))"
  by (simp add: load_training_data_def supplied_samples_def split: option.splits)

lemma fit_and_evaluate_state:
  "\<exists>m sc. snd (fit_and_evaluate env d X y) = d\<lparr>model := m, scaler := sc\<rparr>"
proof -
  have same: "\<exists>m sc. d = d\<lparr>model := m, scaler := sc\<rparr>"
    by (rule exI [of _ "model d"], rule exI [of _ "scaler d"]) simp
  have upd: "\<exists>m sc. d\<lparr>scaler := s\<rparr> = d\<lparr>model := m, scaler := sc\<rparr>" for s
    by (rule exI [of _ "model d"], rule exI [of _ s]) simp
  have upd2: "\<exists>m sc. d\<lparr>scaler := s, model := m'\<rparr> = d\<lparr>model := m, scaler := sc\<rparr>" for s m'
    by (rule exI [of _ m'], rule exI [of _ s]) simp
  show ?thesis
    unfolding fit_and_evaluate_def Let_def
    using same upd upd2
    by (simp split: sum.splits prod.splits)
qed

lemma save_model_state:
  "\<exists>mf sf mdf. snd (save_model env d) =
     d\<lparr>model_file := mf, scaler_file := sf, metadata_file := mdf\<rparr>"
proof -
  have a: "\<exists>mf sf mdf. d = d\<lparr>model_file := mf, scaler_file := sf, metadata_file := mdf\<rparr>"
    by (rule exI [of _ "model_file d"], rule exI [of _ "scaler_file d"],
        rule exI [of _ "metadata_file d"]) simp
  have b: "\<exists>mf sf mdf. d\<lparr>model_file := x\<rparr> =
             d\<lparr>model_file := mf, scaler_file := sf, metadata_file := mdf\<rparr>" for x
    by (rule exI [of _ x], rule exI [of _ "scaler_file d"],
        rule exI [of _ "metadata_file d"]) simp
  have c: "\<exists>mf sf mdf. d\<lparr>model_file := x, scaler_file := y\<rparr> =
             d\<lparr>model_file := mf, scaler_file := sf, metadata_file := mdf\<rparr>" for x y
    by (rule exI [of _ x], rule exI [of _ y], rule exI [of _ "metadata_file d"]) simp
  have e: "\<exists>mf sf mdf. d\<lparr>model_file := x, scaler_file := y, metadata_file := z\<rparr> =
             d\<lparr>model_file := mf, scaler_file := sf, metadata_file := mdf\<rparr>" for x y z
    by blast
  show ?thesis
    unfolding save_model_def save_metadata_def Let_def
    using a b c e
    by (simp split: option.splits)
qed

lemma train_model_cases:
  fixes env :: "('m, 'sc) env" and d :: "('m, 'sc) threat_detector"
  shows "(\<exists>e xs. train_model env d td =
            (Inl e, d\<lparr>model_version := model_version d + 1, saved_training_data := xs\<rparr>)
          \<and> (length (supplied_samples env td) < 10 \<and> database_new env = None \<longrightarrow>
               e = ValueError (''Insufficient training data. Need at least 10 samples, got ''
                               @ str_nat (length (supplied_samples env td)))))
       \<or> (10 \<le> length (supplied_samples env td)
          \<and> (\<exists>res d'. train_model env d td = (res, d')
                \<and> model_version d' = model_version d + 1
                \<and> (\<forall>r. res = Inr r \<longrightarrow> version r = model_version d + 1)
                \<and> (\<forall>e. res = Inl e \<longrightarrow> is_trained d' = is_trained d)))"
proof -
  define d1 where "d1 = d\<lparr>model_version := model_version d + 1\<rparr>"
  obtain xs where xs: "snd (load_training_data env d1 td) = d1\<lparr>saved_training_data := xs\<rparr>"
    using load_training_data_state by blast
  define d2 where "d2 = d1\<lparr>saved_training_data := xs\<rparr>"
  have l: "load_training_data env d1 td =
      ((case database_new env of Some e \<Rightarrow> Inl e | None \<Rightarrow> Inr (supplied_samples env td)), d2)"
    using xs load_training_data_result [of env d1 td] unfolding d2_def
    by (metis prod.collapse)
  have tm: "train_model env d td =
     (case load_training_data env d1 td of
        (Inl e, d2) \<Rightarrow> (Inl e, d2)
      | (Inr data, d2) \<Rightarrow>
      if length data < 10
      then (Inl (ValueError (''Insufficient training data. Need at least 10 samples, got ''
                              @ str_nat (length data))), d2)
      else
      case feature_matrix data of
        Inl e \<Rightarrow> (Inl e, d2)
      | Inr X \<Rightarrow>
      case fit_and_evaluate env d2 X (map label data) of
        (Inl e, d3) \<Rightarrow> (Inl e, d3)
      | (Inr acc, d3) \<Rightarrow>
      let d4 = d3\<lparr>total_samples_trained := total_samples_trained d3 + int (length data),
                   last_training_date := Some (now_isoformat env),
                   is_trained := True\<rparr>;
          training_record = \<lparr> tr_date = now_isoformat env,
                              tr_samples = int (length data),
                              tr_accuracy = format_accuracy env (acc * 100),
                              tr_version = model_version d4 \<rparr>;
          d5 = d4\<lparr>training_history := training_history d4 @ [training_record]\<rparr>;
          (saved, d6) = save_model env d5
      in (Inr \<lparr> success = True,
                samplesProcessed = int (length data),
                accuracy = format_accuracy env (acc * 100),
                version = model_version d6,
                epochs = ''N/A (Random Forest)'' \<rparr>, d6))"
    unfolding train_model_def d1_def Let_def ..
  show ?thesis
  proof (cases "database_new env")
    case (Some e)
    then have "train_model env d td = (Inl e, d2)"
      unfolding tm l by simp
    then show ?thesis
      using Some unfolding d2_def d1_def by auto
  next
    case None
    note db = this
    let ?data = "supplied_samples env td"
    show ?thesis
    proof (cases "length ?data < 10")
      case True
      then have "train_model env d td =
          (Inl (ValueError (''Insufficient training data. Need at least 10 samples, got ''
                              @ str_nat (length ?data))), d2)"
        unfolding tm l using db by simp
      then show ?thesis
        unfolding d2_def d1_def by auto
    next
      case False
      have v2: "model_version d2 = model_version d + 1"
        by (simp add: d2_def d1_def)
      have t2: "is_trained d2 = is_trained d"
        by (simp add: d2_def d1_def)
      have "\<exists>res d'. train_model env d td = (res, d')
                \<and> model_version d' = model_version d + 1
                \<and> (\<forall>r. res = Inr r \<longrightarrow> version r = model_version d + 1)
                \<and> (\<forall>e. res = Inl e \<longrightarrow> is_trained d' = is_trained d)"
      proof (cases "feature_matrix ?data")
        case (Inl e)
        then show ?thesis
          unfolding tm l using db False v2 t2 by simp
      next
        case (Inr X)
        obtain r3 d3 where f: "fit_and_evaluate env d2 X (map label ?data) = (r3, d3)"
          by force
        obtain m sc where "d3 = d2\<lparr>model := m, scaler := sc\<rparr>"
          using fit_and_evaluate_state [of env d2 X "map label ?data"] f by auto
        then have v3: "model_version d3 = model_version d + 1"
          and t3: "is_trained d3 = is_trained d"
          using v2 t2 by simp_all
        show ?thesis
        proof (cases r3)
          case (Inl e)
          then show ?thesis
            unfolding tm l using db False Inr f v3 t3 by simp
        next
          case acc: (Inr acc)
          define d5 where "d5 =
             d3\<lparr>total_samples_trained := total_samples_trained d3 + int (length ?data),
                 last_training_date := Some (now_isoformat env),
                 is_trained := True,
                 training_history := training_history d3 @
                   [\<lparr> tr_date = now_isoformat env, tr_samples = int (length ?data),
                      tr_accuracy = format_accuracy env (acc * 100),
                      tr_version = model_version d3 \<rparr>]\<rparr>"
          obtain saved d6 where s: "save_model env d5 = (saved, d6)"
            by force
          obtain mf sf mdf where
            "d6 = d5\<lparr>model_file := mf, scaler_file := sf, metadata_file := mdf\<rparr>"
            using save_model_state [of env d5] s by auto
          then have v6: "model_version d6 = model_version d + 1"
            using v3 by (simp add: d5_def)
          have "train_model env d td =
             (Inr \<lparr> success = True, samplesProcessed = int (length ?data),
                accuracy = format_accuracy env (acc * 100),
                version = model_version d6,
                epochs = ''N/A (Random Forest)'' \<rparr>, d6)"
            unfolding tm l using db False Inr f acc s
            by (simp add: Let_def d5_def)
          then show ?thesis
            using v6 by simp
        qed
      qed
      then show ?thesis
        using False by auto
    qed
  qed
qed

lemma failed_training_keeps_trained_flag:
  "fst (train_model env d td) = Inl e \<Longrightarrow>
   is_trained (snd (train_model env d td)) = is_trained d"
  using train_model_cases [of env d td] by auto

text \<open>
  Claim C4.  Every call of \<open>train_model\<close> leaves the version counter exactly one above
  its value before the call, whether the run succeeds, is rejected or fails; a successful
  run had at least 10 samples and reports the incremented version.
\<close>

theorem train_model_increments_version:
  "model_version (snd (train_model env d td)) = model_version d + 1
   \<and> (\<forall>r. fst (train_model env d td) = Inr r \<longrightarrow>
         version r = model_version d + 1 \<and> 10 \<le> length (supplied_samples env td))"
  using train_model_cases [of env d td] by auto

text \<open>
  Claim C5.  A call of \<open>train_model\<close> with fewer than 10 samples fails: with the
  ValueError of the sample-count check whenever the database client could be constructed,
  otherwise with the client's exception.  The model, the scaler, the trained flag, the three
  stored files and the training statistics are unchanged by the call.
\<close>

theorem too_few_samples_rejected:
  assumes "length (supplied_samples env td) < 10"
  shows "\<exists>e d'. train_model env d td = (Inl e, d')
     \<and> (database_new env = None \<longrightarrow>
          e = ValueError (''Insufficient training data. Need at least 10 samples, got ''
                          @ str_nat (length (supplied_samples env td))))
     \<and> model d' = model d \<and> scaler d' = scaler d \<and> is_trained d' = is_trained d
     \<and> model_file d' = model_file d \<and> scaler_file d' = scaler_file d
     \<and> metadata_file d' = metadata_file d
     \<and> training_history d' = training_history d
     \<and> total_samples_trained d' = total_samples_trained d
     \<and> last_training_date d' = last_training_date d"
proof -
  obtain e xs where r: "train_model env d td =
            (Inl e, d\<lparr>model_version := model_version d + 1, saved_training_data := xs\<rparr>)"
    and e: "database_new env = None \<longrightarrow>
               e = ValueError (''Insufficient training data. Need at least 10 samples, got ''
                               @ str_nat (length (supplied_samples env td)))"
    using train_model_cases [of env d td] assms by auto
  show ?thesis
    unfolding r using e by simp
qed

lemma upt_10: "[0..<10] = [0, 1, 2, 3, 4, 5, 6, 7, 8, 9]" "[0..<9] = [0, 1, 2, 3, 4, 5, 6, 7, 8]"
  by code_simp+

lemma str_nat_9: "str_nat 9 = ''9''"
  by code_simp

lemma example_training_data_length: "length (example_training_data n) = n"
  by (simp add: example_training_data_def)

theorem too_few_samples_rejected_witness:
  "length (supplied_samples example_env (Some (example_training_data 9))) = 9
   \<and> database_new example_env = None
   \<and> fst (train_model example_env example_detector (Some (example_training_data 9))) =
       Inl (ValueError ''Insufficient training data. Need at least 10 samples, got 9'')
   \<and> model (snd (train_model example_env example_detector (Some (example_training_data 9)))) = Some 7
   \<and> scaler (snd (train_model example_env example_detector (Some (example_training_data 9)))) = Some 3"
proof -
  have l: "length (supplied_samples example_env (Some (example_training_data 9))) = 9"
    by (simp add: supplied_samples_def example_training_data_length)
  have db: "database_new example_env = None"
    by (simp add: example_env_def)
  have "(9::nat) < 10" by simp
  from too_few_samples_rejected [of example_env "Some (example_training_data 9)" example_detector,
      unfolded l, OF this]
  show ?thesis
    using l db by (auto simp: str_nat_9 example_detector_fields)
qed

lemma example_labels_encoded:
  "label_encoder_transform1 (Some ''Normal'') = Inr 4"
  "label_encoder_transform1 (Some ''Port_Scan'') = Inr 6"
  by (simp_all add: label_encoder_transform1_def label_encoder_classes_def)

lemma example_feature_matrix:
  "feature_matrix (example_training_data 10) = Inr (map features (example_training_data 10))"
  by (simp add: feature_matrix_def example_training_data_def upt_10 example_sample_def)

lemma example_fit_and_evaluate:
  "fst (fit_and_evaluate example_env d (map features (example_training_data 10))
          (map label (example_training_data 10))) = Inr 1"
  by (simp add: fit_and_evaluate_def example_env_def example_training_data_def upt_10
      example_sample_def example_labels_encoded and_then_def)

lemma example_training_succeeds:
  "fst (train_model example_env example_detector (Some (example_training_data 10))) =
     Inr \<lparr> success = True, samplesProcessed = 10, accuracy = ''100.00'',
           version = model_version (snd (train_model example_env example_detector
                                          (Some (example_training_data 10)))),
           epochs = ''N/A (Random Forest)'' \<rparr>"
proof -
  have db: "database_new example_env = None" "format_accuracy example_env x = ''100.00''" for x
    by (simp_all add: example_env_def)
  show ?thesis
    unfolding train_model_def load_training_data_def Let_def
    by (simp add: db example_training_data_length example_feature_matrix
        split: prod.splits sum.splits)
       (use example_fit_and_evaluate in \<open>auto simp: prod_eq_iff\<close>)
qed

lemma example_detector_version: "model_version example_detector = 1"
  by (simp add: example_detector_def init_detector_def)

theorem train_model_increments_version_witness:
  "fst (train_model example_env example_detector (Some (example_training_data 10))) =
     Inr \<lparr> success = True, samplesProcessed = 10, accuracy = ''100.00'', version = 2,
           epochs = ''N/A (Random Forest)'' \<rparr>
   \<and> model_version example_detector = 1
   \<and> model_version (snd (train_model example_env example_detector
                            (Some (example_training_data 10)))) = 2
   \<and> model_version (snd (train_model example_env example_detector
                            (Some (example_training_data 9)))) = 2"
  using train_model_increments_version [of example_env example_detector "Some (example_training_data 10)"]
    train_model_increments_version [of example_env example_detector "Some (example_training_data 9)"]
    example_training_succeeds
  by (simp add: example_detector_version)

section \<open>Bulk import drops rows with an unknown threat type\<close>

lemma isna_py_float: "isna (py_float v) = isna v"
  by (cases v) simp_all

lemma extract_features_from_csv_row_ok:
  "\<exists>fs. extract_features_from_csv_row env row = Inr fs \<and> length fs = 9 \<and> \<not> list_ex isna fs"
proof -
  obtain pc sc where c: "get_port_category (dest_port row) = Inr pc"
    "get_packet_size_category (packet_size row) = Inr sc"
    using categories_never_raise by metis
  show ?thesis
    unfolding extract_features_from_csv_row_def c
    by (simp add: try_except_def and_then_def get_time_features_def isna_py_float)
qed

lemma process_row_ok:
  "\<exists>fs. process_row env row =
          Inr (Some \<lparr> features = fs, label = threat_type row, raw_data = Some row \<rparr>)
        \<and> length fs = 9"
proof -
  obtain fs where "extract_features_from_csv_row env row = Inr fs" "length fs = 9"
    "\<not> list_ex isna fs"
    using extract_features_from_csv_row_ok by blast
  then show ?thesis
    by (simp add: process_row_def and_then_def)
qed

lemma process_rows_all:
  "map raw_data (fst (process_rows env rows)) = map Some rows
   \<and> map label (fst (process_rows env rows)) = map threat_type rows
   \<and> list_all (\<lambda>s. length (features s) = 9) (fst (process_rows env rows))
   \<and> snd (process_rows env rows) = []"
proof (induction rows)
  case Nil
  then show ?case by simp
next
  case (Cons row rows)
  obtain fs where "process_row env row =
          Inr (Some \<lparr> features = fs, label = threat_type row, raw_data = Some row \<rparr>)"
    "length fs = 9"
    using process_row_ok by blast
  then show ?case
    using Cons.IH by (simp add: split_beta)
qed

lemma is_valid_threat_closed_set:
  "is_valid_threat t = (t \<in> Some ` closed_label_set)"
  by (cases t) (auto simp: is_valid_threat_def threat_types_def closed_label_set_def)

text \<open>
  Claim C8.  An import whose table has all required columns does not fail: the rows whose
  \<open>threat_type\<close> is outside the closed label set are dropped, every other row is
  retained, in order, as a sample with 9 features, and a warning naming the invalid threat
  types is logged exactly when such a row exists.
\<close>

theorem invalid_threat_rows_are_dropped:
  assumes "set required_columns \<subseteq> set (columns df)"
  shows "\<exists>samples logs. process_csv_file env df = (Inr samples, logs)
     \<and> map raw_data samples =
         map Some (filter (\<lambda>r. threat_type r \<in> Some ` closed_label_set) (df_rows df))
     \<and> map label samples =
         filter (\<lambda>t. t \<in> Some ` closed_label_set) (map threat_type (df_rows df))
     \<and> list_all (\<lambda>s. length (features s) = 9) samples
     \<and> logs =
         (if list_ex (\<lambda>r. threat_type r \<notin> Some ` closed_label_set) (df_rows df)
          then [Warning_invalid_threat_types
                  (filter (\<lambda>t. t \<notin> Some ` closed_label_set)
                     (remdups (map threat_type (df_rows df))))]
          else [])"
proof -
  let ?rows = "df_rows df"
  let ?valid = "filter (\<lambda>r. is_valid_threat (threat_type r)) ?rows"
  let ?inv = "filter (\<lambda>t. \<not> is_valid_threat t) (remdups (map threat_type ?rows))"
  have cols: "filter (\<lambda>col. col \<notin> set (columns df)) required_columns = []"
    using assms by (auto simp: filter_empty_conv)
  have inv: "(?inv \<noteq> []) = list_ex (\<lambda>r. \<not> is_valid_threat (threat_type r)) ?rows"
    by (auto simp: filter_empty_conv list_ex_iff)
  have all_valid: "?valid = ?rows" if "?inv = []"
    using that by (auto simp: filter_empty_conv filter_id_conv)
  have r: "process_csv_file env df =
      (Inr (fst (process_rows env ?valid)),
       (if ?inv \<noteq> [] then [Warning_invalid_threat_types ?inv] else [])
       @ snd (process_rows env ?valid))"
    unfolding process_csv_file_def Let_def cols
    using all_valid by (simp add: split_beta)
  have f: "map threat_type ?valid = filter is_valid_threat (map threat_type ?rows)"
    by (simp add: filter_map comp_def)
  show ?thesis
    unfolding r is_valid_threat_closed_set [symmetric]
    using process_rows_all [of env ?valid] inv f
    by simp
qed

lemma example_row_features:
  "extract_features_from_csv_row example_env (example_row t) =
     Inr [PFloat 40, PFloat 4444, PFloat 22, PInt 6, PInt 12, PInt 1, PInt 1, PInt 1, PInt 2]"
proof -
  have c: "get_port_category (PInt 22) = Inr 1" "get_packet_size_category (PInt 40) = Inr 1"
    by (simp_all add: get_port_category_def get_packet_size_category_def)
  have "documented_ip_locality ''10.0.0.5'' = 1"
    by (simp add: documented_ip_locality_def documented_private_prefixes_def startswith_def)
  moreover have "documented_protocol_code ''TCP'' = 6"
    by (simp add: documented_protocol_code_def py_upper_def upper_char_def)
  ultimately show ?thesis
    unfolding extract_features_from_csv_row_def
    by (simp add: example_row_def c try_except_def and_then_def get_time_features_def
        example_env_def get_ip_type_documented get_protocol_documented documented_examples)
qed

theorem invalid_threat_rows_are_dropped_witness:
  "set required_columns \<subseteq> set (columns example_dataframe)
   \<and> map threat_type (df_rows example_dataframe) = [Some ''Normal'', Some ''Foo'', Some ''Port_Scan'']
   \<and> process_csv_file example_env example_dataframe =
       (Inr [example_sample ''Normal'', example_sample ''Port_Scan''],
        [Warning_invalid_threat_types [Some ''Foo'']])"
proof -
  have cols: "set required_columns \<subseteq> set (columns example_dataframe)"
    by (simp add: required_columns_def example_dataframe_def)
  have v: "is_valid_threat (Some ''Normal'')" "\<not> is_valid_threat (Some ''Foo'')"
    "is_valid_threat (Some ''Port_Scan'')"
    by (simp_all add: is_valid_threat_def threat_types_def)
  have p: "process_row example_env (example_row t) = Inr (Some (example_sample t))" for t
    by (simp add: process_row_def example_row_features and_then_def example_sample_def)
       (simp add: example_row_def)
  have e: "process_csv_file example_env example_dataframe =
       (Inr [example_sample ''Normal'', example_sample ''Port_Scan''],
        [Warning_invalid_threat_types [Some ''Foo'']])"
    unfolding process_csv_file_def Let_def
    by (simp add: example_dataframe_def required_columns_def v p)
       (simp add: example_row_def v)
  have t: "map threat_type (df_rows example_dataframe) =
      [Some ''Normal'', Some ''Foo'', Some ''Port_Scan'']"
    by (simp add: example_dataframe_def example_row_def)
  from invalid_threat_rows_are_dropped [OF cols, of example_env]
  have "\<exists>samples logs. process_csv_file example_env example_dataframe = (Inr samples, logs)"
    by blast
  then show ?thesis
    using cols t e by blast
qed

section \<open>The untrained detector\<close>

lemma example_rejected_run:
  "fst (train_model example_env d (Some (example_training_data 9))) =
     Inl (ValueError ''Insufficient training data. Need at least 10 samples, got 9'')"
proof -
  have l: "length (supplied_samples example_env (Some (example_training_data 9))) = 9"
    by (simp add: supplied_samples_def example_training_data_length)
  have db: "database_new example_env = None"
    by (simp add: example_env_def)
  show ?thesis
    using train_model_cases [of example_env d "Some (example_training_data 9)"]
    unfolding l using db by (auto simp: str_nat_9)
qed

lemma init_detector_untrained:
  "\<not> is_trained (init_detector thr mf sf mdf)" "model (init_detector thr mf sf mdf) = None"
  by (simp_all add: init_detector_def)

text \<open>
  Claim C3.  When no model is loaded (the detector is not trained or holds no model) every
  packet is classified Unknown with confidence 0.5, not a threat, with no threat record.  A
  new detector is in that state, and a training run that fails leaves an untrained detector
  untrained, so its packets are still classified Unknown.
\<close>

theorem untrained_gives_unknown:
  "(\<not> is_trained d \<or> model d = None \<longrightarrow>
      analyze_packet env d packet_data =
        Inr \<lparr> classification = ''Unknown'', confidence = 0.5, threat = None, isThreat = False \<rparr>)
   \<and> (\<not> is_trained d \<and> fst (train_model env d td) = Inl e \<longrightarrow>
      analyze_packet env (snd (train_model env d td)) packet_data =
        Inr \<lparr> classification = ''Unknown'', confidence = 0.5, threat = None, isThreat = False \<rparr>)
   \<and> \<not> is_trained (init_detector thr mf sf mdf :: ('m, 'sc) threat_detector)
   \<and> model (init_detector thr mf sf mdf :: ('m, 'sc) threat_detector) = None"
proof -
  have a: "analyze_packet env d' packet_data = Inr unknown_result"
    if "\<not> is_trained d' \<or> model d' = None" for d'
    using that by (auto simp: analyze_packet_def split: bool.splits option.splits)
  have b: "\<not> is_trained (snd (train_model env d td))"
    if "\<not> is_trained d" "fst (train_model env d td) = Inl e"
    using that failed_training_keeps_trained_flag by blast
  show ?thesis
    using a [of d] a [of "snd (train_model env d td)"] b
    by (simp add: unknown_result_def init_detector_def)
qed

theorem untrained_gives_unknown_witness:
  "\<not> is_trained (init_detector None None None None :: (nat, nat) threat_detector)
   \<and> model (init_detector None None None None :: (nat, nat) threat_detector) = None
   \<and> analyze_packet example_env (init_detector None None None None) example_packet =
       Inr \<lparr> classification = ''Unknown'', confidence = 0.5, threat = None, isThreat = False \<rparr>
   \<and> fst (train_model example_env (init_detector None None None None)
            (Some (example_training_data 9))) =
       Inl (ValueError ''Insufficient training data. Need at least 10 samples, got 9'')
   \<and> analyze_packet example_env
         (snd (train_model example_env (init_detector None None None None)
                 (Some (example_training_data 9)))) example_packet =
       Inr \<lparr> classification = ''Unknown'', confidence = 0.5, threat = None, isThreat = False \<rparr>"
  using untrained_gives_unknown
          [where d = "init_detector None None None None :: (nat, nat) threat_detector"
             and env = example_env and packet_data = example_packet
             and td = "Some (example_training_data 9)"
             and e = "ValueError ''Insufficient training data. Need at least 10 samples, got 9''"
             and thr = None and mf = None and sf = None and mdf = None]
    example_rejected_run [of "init_detector None None None None"]
  by (simp add: init_detector_untrained)

end
